theory Spec2Isabelle
  imports Complex_Main
begin

section \<open>JavaScript values\<close>

text \<open>
  The container of \<^verbatim>\<open>src/index.ts\<close> is generic: it stores any JavaScript value and only
  ever asks three things of it: whether it is \<^verbatim>\<open>undefined\<close> or \<^verbatim>\<open>null\<close>, what
  \<^verbatim>\<open>typeof\<close> says, and whether it is \<^verbatim>\<open>===\<close> to another value. Values are therefore
  modelled by their kind. Numbers are the values a double can take, with the two zeros
  identified (\<^verbatim>\<open>===\<close> does not tell them apart); the library does no arithmetic.
  Objects, functions and symbols are references: two of them are the same value only
  when they are the same reference.
\<close>

datatype jsnumber = NaN | PosInfinity | NegInfinity | Finite rat

datatype jsval =
    JUndefined
  | JNull
  | JBoolean bool
  | JNumber jsnumber
  | JBigInt int
  | JString string
  | JSymbol nat
  | JFunction nat
  | JObject nat

text \<open>The \<^verbatim>\<open>typeof\<close> operator; \<^verbatim>\<open>typeof null\<close> is \<^verbatim>\<open>"object"\<close>.\<close>

fun typeof :: "jsval \<Rightarrow> string" where
  "typeof JUndefined = ''undefined''"
| "typeof JNull = ''object''"
| "typeof (JBoolean b) = ''boolean''"
| "typeof (JNumber n) = ''number''"
| "typeof (JBigInt i) = ''bigint''"
| "typeof (JString s) = ''string''"
| "typeof (JSymbol y) = ''symbol''"
| "typeof (JFunction f) = ''function''"
| "typeof (JObject r) = ''object''"

text \<open>
  Strict equality \<^verbatim>\<open>===\<close>: values of different kinds are never equal, \<^verbatim>\<open>NaN\<close> is not
  equal to itself, every other primitive is compared by value and every reference by
  identity.
\<close>

definition strict_eq :: "jsval \<Rightarrow> jsval \<Rightarrow> bool" where
  "strict_eq a b =
     (case (a, b) of
        (JNumber x, JNumber y) \<Rightarrow> x \<noteq> NaN \<and> y \<noteq> NaN \<and> x = y
      | _ \<Rightarrow> a = b)"

definition strict_neq :: "jsval \<Rightarrow> jsval \<Rightarrow> bool" where
  "strict_neq a b = (\<not> strict_eq a b)"

section \<open>The store, exceptions and callbacks\<close>

text \<open>
  \<^verbatim>\<open>new Error(message)\<close> and \<^verbatim>\<open>Promise.resolve\<close>/\<^verbatim>\<open>Promise.reject\<close> create objects, and
  the callbacks a caller hands to the container may do anything: count their calls,
  create objects, throw. A computation is therefore a function from the world before
  to its outcome (a returned value or a thrown one) and the world after. The world is
  the object store, the next unused reference and a component \<open>user\<close> standing for
  whatever else the caller's code can change.

  Of an object the store records what this library can observe. Functions are objects
  too: a function value and an object value are both references into the store.
  \<^item> \<open>ErrorObject\<close>: an error as \<^verbatim>\<open>new Error(message)\<close> or \<^verbatim>\<open>TypeError(message)\<close>
    makes it, with the name of its class and its message; it has no \<^verbatim>\<open>then\<close>. (An
    error that was given a callable \<^verbatim>\<open>then\<close> is, to \<^verbatim>\<open>Promise.resolve\<close>, a
    \<open>ThenableObject\<close>.)
  \<^item> \<open>PromiseObject\<close>: a promise whose \<^verbatim>\<open>constructor\<close> is \<^verbatim>\<open>Promise\<close> itself, with its
    state. (A promise of a subclass is, to \<^verbatim>\<open>Promise.resolve\<close>, one more object with
    a callable \<^verbatim>\<open>then\<close>.)
  \<^item> \<open>ThenableObject\<close>: any other object or function whose \<^verbatim>\<open>then\<close> is callable.
  \<^item> \<open>ThrowingThenObject e\<close>: an object or function on which reading \<^verbatim>\<open>then\<close>
    throws \<open>e\<close>.
  \<^item> \<open>OrdinaryObject\<close>: an object or function whose \<^verbatim>\<open>then\<close> is absent, or is
    a property that holds something not callable.
\<close>

datatype promise_state = Pending | Fulfilled jsval | Rejected jsval

datatype jsobj =
    ErrorObject (err_class: string) (err_message: string)
  | PromiseObject promise_state
  | ThenableObject
  | ThrowingThenObject jsval
  | OrdinaryObject

record 'u world =
  heap :: "nat \<rightharpoonup> jsobj"
  next_ref :: nat
  user :: 'u

datatype 'a outcome = Return 'a | Throw jsval

type_synonym ('u, 'a) comp = "'u world \<Rightarrow> 'a outcome \<times> 'u world"

definition js_return :: "'a \<Rightarrow> ('u, 'a) comp" where
  "js_return x w = (Return x, w)"

definition js_throw :: "jsval \<Rightarrow> ('u, 'a) comp" where
  "js_throw e w = (Throw e, w)"

definition js_bind :: "('u, 'a) comp \<Rightarrow> ('a \<Rightarrow> ('u, 'b) comp) \<Rightarrow> ('u, 'b) comp" where
  "js_bind m k w =
     (case m w of
        (Return x, w') \<Rightarrow> k x w'
      | (Throw e, w') \<Rightarrow> (Throw e, w'))"

text \<open>\<^verbatim>\<open>try { m } catch { h }\<close>: the handler runs in the world the failed block left.\<close>

definition js_catch :: "('u, 'a) comp \<Rightarrow> ('u, 'a) comp \<Rightarrow> ('u, 'a) comp" where
  "js_catch m h w =
     (case m w of
        (Return x, w') \<Rightarrow> (Return x, w')
      | (Throw e, w') \<Rightarrow> h w')"

definition alloc :: "jsobj \<Rightarrow> ('u, jsval) comp" where
  "alloc ob w =
     (Return (JObject (next_ref w)),
      w\<lparr>heap := (heap w)(next_ref w \<mapsto> ob), next_ref := Suc (next_ref w)\<rparr>)"

text \<open>\<^verbatim>\<open>new Error(message)\<close>.\<close>

definition new_Error :: "string \<Rightarrow> ('u, jsval) comp" where
  "new_Error message = alloc (ErrorObject ''Error'' message)"

section \<open>The class \<^verbatim>\<open>OptionalValue\<close>\<close>

text \<open>
  \<^verbatim>\<open>class OptionalValue<T> { protected constructor(private value: T) {} ... }\<close>. The
  field is never assigned after construction and the class is documented as
  value-based, so a container is the record of what it stores, and a method that
  returns \<^verbatim>\<open>this\<close> returns that record.
\<close>

record OptionalValue =
  "value" :: jsval

text \<open>\<^verbatim>\<open>static isPresent(value)\<close>: \<^verbatim>\<open>value !== undefined && value !== null\<close>.\<close>

definition OptionalValue_isPresent :: "jsval \<Rightarrow> bool" where
  "OptionalValue_isPresent v = (strict_neq v JUndefined \<and> strict_neq v JNull)"

text \<open>\<^verbatim>\<open>static empty()\<close>: \<^verbatim>\<open>new OptionalValue(null)\<close>.\<close>

definition OptionalValue_empty :: OptionalValue where
  "OptionalValue_empty = \<lparr>value = JNull\<rparr>"

text \<open>\<^verbatim>\<open>static of(value)\<close>.\<close>

definition OptionalValue_of :: "jsval \<Rightarrow> OptionalValue" where
  "OptionalValue_of v =
     (if OptionalValue_isPresent v then \<lparr>value = v\<rparr> else OptionalValue_empty)"

text \<open>The exported function \<^verbatim>\<open>Optional\<close> is \<^verbatim>\<open>OptionalValue.of\<close>, and
  \<^verbatim>\<open>Optional.empty\<close> is \<^verbatim>\<open>OptionalValue.empty\<close>.\<close>

definition Optional :: "jsval \<Rightarrow> OptionalValue" where
  "Optional = OptionalValue_of"

definition Optional_empty :: OptionalValue where
  "Optional_empty = OptionalValue_empty"

definition get :: "OptionalValue \<Rightarrow> jsval" where
  "get this = value this"

definition isPresent :: "OptionalValue \<Rightarrow> bool" where
  "isPresent this = OptionalValue_isPresent (value this)"

definition isEmpty :: "OptionalValue \<Rightarrow> bool" where
  "isEmpty this = (\<not> OptionalValue_isPresent (value this))"

text \<open>
  The optional argument of \<^verbatim>\<open>orElseThrow\<close> and \<^verbatim>\<open>toPromise\<close>, of type
  \<^verbatim>\<open>string | (() => E)\<close>: left out, a string, or a function that supplies an error.
\<close>

datatype 'u messageOrErrorSupplier =
    NoArgument
  | Message string
  | ErrorSupplier "('u, jsval) comp"

text \<open>
  What \<^verbatim>\<open>!messageOrErrorSupplier\<close> tests: \<^verbatim>\<open>undefined\<close> and the empty string are
  falsy, every other string and every function is truthy.
\<close>

fun falsy :: "'u messageOrErrorSupplier \<Rightarrow> bool" where
  "falsy NoArgument = True"
| "falsy (Message m) = (m = [])"
| "falsy (ErrorSupplier f) = False"

text \<open>
  \<^verbatim>\<open>private parseError(messageOrErrorSupplier?)\<close>: the falsiness test, then the
  \<^verbatim>\<open>typeof ... === "string"\<close> test, then the call. (The last case below is never
  reached: a left-out argument is falsy.)
\<close>

definition parseError :: "'u messageOrErrorSupplier \<Rightarrow> ('u, jsval) comp" where
  "parseError messageOrErrorSupplier =
     (if falsy messageOrErrorSupplier then new_Error ''Value not present.''
      else case messageOrErrorSupplier of
             Message m \<Rightarrow> new_Error m
           | ErrorSupplier f \<Rightarrow> f
           | NoArgument \<Rightarrow> new_Error ''Value not present.'')"

definition ifPresent :: "OptionalValue \<Rightarrow> (jsval \<Rightarrow> ('u, unit) comp) \<Rightarrow> ('u, OptionalValue) comp" where
  "ifPresent this consumer =
     (if isPresent this then js_bind (consumer (value this)) (\<lambda>_. js_return this)
      else js_return this)"

definition ifEmpty :: "OptionalValue \<Rightarrow> ('u, unit) comp \<Rightarrow> ('u, OptionalValue) comp" where
  "ifEmpty this consumer =
     (if isEmpty this then js_bind consumer (\<lambda>_. js_return this)
      else js_return this)"

definition filter_Optional ::
  "OptionalValue \<Rightarrow> (jsval \<Rightarrow> ('u, bool) comp) \<Rightarrow> ('u, OptionalValue) comp" where
  "filter_Optional this predicate =
     (if isEmpty this then js_return this
      else js_bind (predicate (value this))
             (\<lambda>holds. if holds then js_return this else js_return OptionalValue_empty))"

definition map_Optional ::
  "OptionalValue \<Rightarrow> (jsval \<Rightarrow> ('u, jsval) comp) \<Rightarrow> ('u, OptionalValue) comp" where
  "map_Optional this mapper =
     (if isEmpty this then js_return this
      else js_bind (mapper (value this))
             (\<lambda>mapped. if OptionalValue_isPresent mapped then js_return (OptionalValue_of mapped)
                        else js_return OptionalValue_empty))"

definition flatMap ::
  "OptionalValue \<Rightarrow> (jsval \<Rightarrow> ('u, OptionalValue) comp) \<Rightarrow> ('u, OptionalValue) comp" where
  "flatMap this mapper =
     (if isEmpty this then js_return this else mapper (value this))"

definition orElse :: "OptionalValue \<Rightarrow> jsval \<Rightarrow> jsval" where
  "orElse this other = (if isPresent this then value this else other)"

definition orElseGet :: "OptionalValue \<Rightarrow> ('u, jsval) comp \<Rightarrow> ('u, jsval) comp" where
  "orElseGet this other = (if isPresent this then js_return (value this) else other)"

definition orElseThrow :: "OptionalValue \<Rightarrow> 'u messageOrErrorSupplier \<Rightarrow> ('u, jsval) comp" where
  "orElseThrow this messageOrErrorSupplier =
     (if isPresent this then js_return (value this)
      else js_bind (parseError messageOrErrorSupplier) js_throw)"

definition equals ::
  "OptionalValue \<Rightarrow> OptionalValue \<Rightarrow> (jsval \<Rightarrow> jsval \<Rightarrow> ('u, bool) comp) option \<Rightarrow> ('u, bool) comp"
  where
  "equals this other comparator =
     (if isEmpty this \<and> isEmpty other then js_return True
      else if isEmpty this \<or> isEmpty other then js_return False
      else case comparator of
             Some compare \<Rightarrow> compare (value this) (value other)
           | None \<Rightarrow> js_return (strict_eq (value this) (value other)))"

definition contains :: "OptionalValue \<Rightarrow> jsval \<Rightarrow> bool" where
  "contains this v = (isPresent this \<and> strict_eq (value this) v)"

subsection \<open>\<^verbatim>\<open>toPromise\<close>\<close>

text \<open>
  The two built-ins \<^verbatim>\<open>toPromise\<close> calls, after ECMAScript (the operations
  PromiseResolve and the promise resolve functions). \<^verbatim>\<open>Promise.reject(r)\<close> makes
  a new promise rejected with \<open>r\<close>, whatever \<open>r\<close> is. \<^verbatim>\<open>Promise.resolve(x)\<close>:
  \<^item> returns \<open>x\<close> itself when \<open>x\<close> is a promise whose constructor is \<^verbatim>\<open>Promise\<close>;
  \<^item> otherwise makes a new promise and resolves it with \<open>x\<close>. When \<open>x\<close> is not an
    object or a function the new promise is fulfilled with \<open>x\<close>. When it is one,
    \<^verbatim>\<open>then\<close> is read from it: if the read throws \<open>e\<close> the new promise is rejected
    with \<open>e\<close>; if \<^verbatim>\<open>then\<close> is callable the new promise is still pending when the
    call returns (\<^verbatim>\<open>then\<close> runs later, in a job); if it is not callable the new
    promise is fulfilled with \<open>x\<close>.
  A reference without an entry in the store stands for no object of the program; the
  statements about \<^verbatim>\<open>toPromise\<close> are made for values that have an entry.
\<close>

definition resolve_reference :: "jsval \<Rightarrow> nat \<Rightarrow> ('u, jsval) comp" where
  "resolve_reference x r w =
     (case heap w r of
        Some (PromiseObject st) \<Rightarrow> (Return x, w)
      | Some ThenableObject \<Rightarrow> alloc (PromiseObject Pending) w
      | Some (ThrowingThenObject e) \<Rightarrow> alloc (PromiseObject (Rejected e)) w
      | Some (ErrorObject c m) \<Rightarrow> alloc (PromiseObject (Fulfilled x)) w
      | Some OrdinaryObject \<Rightarrow> alloc (PromiseObject (Fulfilled x)) w
      | None \<Rightarrow> alloc (PromiseObject (Fulfilled x)) w)"

definition Promise_resolve :: "jsval \<Rightarrow> ('u, jsval) comp" where
  "Promise_resolve x w =
     (case x of
        JObject r \<Rightarrow> resolve_reference x r w
      | JFunction r \<Rightarrow> resolve_reference x r w
      | _ \<Rightarrow> alloc (PromiseObject (Fulfilled x)) w)"



definition Promise_reject :: "jsval \<Rightarrow> ('u, jsval) comp" where
  "Promise_reject r = alloc (PromiseObject (Rejected r))"

definition toPromise :: "OptionalValue \<Rightarrow> 'u messageOrErrorSupplier \<Rightarrow> ('u, jsval) comp" where
  "toPromise this messageOrErrorSupplier =
     (if isPresent this then Promise_resolve (value this)
      else js_bind (parseError messageOrErrorSupplier) Promise_reject)"

subsection \<open>\<^verbatim>\<open>toString\<close>\<close>

text \<open>
  \<^verbatim>\<open>toString\<close> calls two built-ins of the host: \<^verbatim>\<open>JSON.stringify\<close>, and the conversion
  to a string that a template literal applies to each \<^verbatim>\<open>${...}\<close>. On an object both
  may run code of the caller (\<^verbatim>\<open>toJSON\<close>, \<^verbatim>\<open>toString\<close>) and both may throw, so they
  are computations, and they are parameters of the model.
\<close>

record 'u host =
  JSON_stringify :: "jsval \<Rightarrow> ('u, jsval) comp"
  ToString :: "jsval \<Rightarrow> ('u, string) comp"

text \<open>The template literal \<^verbatim>\<open>`Optional.Present<${x}>`\<close>.\<close>

definition Present_template :: "'u host \<Rightarrow> jsval \<Rightarrow> ('u, string) comp" where
  "Present_template H x =
     js_bind (ToString H x) (\<lambda>t. js_return (''Optional.Present<'' @ t @ ''>''))"

definition toString :: "'u host \<Rightarrow> OptionalValue \<Rightarrow> ('u, string) comp" where
  "toString H this =
     (if isPresent this then
        (let v = value this in
         if typeof v = ''object'' \<or> typeof v = ''string'' then
           js_catch (js_bind (JSON_stringify H v) (Present_template H))
                    (Present_template H v)
         else Present_template H v)
      else js_return ''Optional.Empty'')"

text \<open>
  A host for the examples. It follows ECMAScript on the primitive values: integers of
  magnitude below \<open>10\<^sup>2\<^sup>1\<close> print in decimal, \<^verbatim>\<open>JSON.stringify\<close> quotes a string and
  escapes what JSON escapes, converting a symbol throws a \<^verbatim>\<open>TypeError\<close>. Every object
  of this host is a plain object that contains itself: \<^verbatim>\<open>JSON.stringify\<close> throws a
  \<^verbatim>\<open>TypeError\<close> on it and its textual rendering is \<^verbatim>\<open>[object Object]\<close>. What is
  left (functions, numbers with a fraction or of large magnitude) is handed to the
  parameter \<open>other\<close>; no example uses these values.
\<close>

fun decimal_nat :: "nat \<Rightarrow> string" where
  "decimal_nat n =
     (if n < 10 then [''0123456789'' ! n]
      else decimal_nat (n div 10) @ [''0123456789'' ! (n mod 10)])"

declare decimal_nat.simps [simp del]

definition decimal_int :: "int \<Rightarrow> string" where
  "decimal_int i = (if i < 0 then ''-'' @ decimal_nat (nat (- i)) else decimal_nat (nat i))"

definition json_escape :: "char \<Rightarrow> string" where
  "json_escape c =
     (let n = (of_char c :: nat) in
      if n = 8 then [CHR 0x5C, CHR ''b'']
      else if n = 9 then [CHR 0x5C, CHR ''t'']
      else if n = 10 then [CHR 0x5C, CHR ''n'']
      else if n = 12 then [CHR 0x5C, CHR ''f'']
      else if n = 13 then [CHR 0x5C, CHR ''r'']
      else if n = 34 then [CHR 0x5C, CHR 0x22]
      else if n = 92 then [CHR 0x5C, CHR 0x5C]
      else if n < 32 then
        [CHR 0x5C, CHR ''u'', CHR ''0'', CHR ''0'',
         ''0123456789abcdef'' ! (n div 16), ''0123456789abcdef'' ! (n mod 16)]
      else [c])"

definition QuoteJSONString :: "string \<Rightarrow> string" where
  "QuoteJSONString s = [CHR 0x22] @ concat (map json_escape s) @ [CHR 0x22]"

definition throw_TypeError :: "string \<Rightarrow> ('u, 'a) comp" where
  "throw_TypeError message = js_bind (alloc (ErrorObject ''TypeError'' message)) js_throw"

fun sample_ToString :: "(jsval \<Rightarrow> ('u, string) comp) \<Rightarrow> jsval \<Rightarrow> ('u, string) comp" where
  "sample_ToString other JUndefined = js_return ''undefined''"
| "sample_ToString other JNull = js_return ''null''"
| "sample_ToString other (JBoolean b) = js_return (if b then ''true'' else ''false'')"
| "sample_ToString other (JNumber NaN) = js_return ''NaN''"
| "sample_ToString other (JNumber PosInfinity) = js_return ''Infinity''"
| "sample_ToString other (JNumber NegInfinity) = js_return ''-Infinity''"
| "sample_ToString other (JNumber (Finite q)) =
     (if q = of_int \<lfloor>q\<rfloor> \<and> \<bar>\<lfloor>q\<rfloor>\<bar> < 10 ^ 21 then js_return (decimal_int \<lfloor>q\<rfloor>)
      else other (JNumber (Finite q)))"
| "sample_ToString other (JBigInt i) = js_return (decimal_int i)"
| "sample_ToString other (JString s) = js_return s"
| "sample_ToString other (JSymbol y) =
     throw_TypeError ''Cannot convert a Symbol value to a string''"
| "sample_ToString other (JFunction f) = other (JFunction f)"
| "sample_ToString other (JObject r) = js_return ''[object Object]''"

fun sample_JSON_stringify :: "(jsval \<Rightarrow> ('u, jsval) comp) \<Rightarrow> jsval \<Rightarrow> ('u, jsval) comp" where
  "sample_JSON_stringify other (JString s) = js_return (JString (QuoteJSONString s))"
| "sample_JSON_stringify other (JObject r) =
     throw_TypeError ''Converting circular structure to JSON''"
| "sample_JSON_stringify other v = other v"

definition sample_host :: "nat host" where
  "sample_host =
     \<lparr>JSON_stringify = sample_JSON_stringify (\<lambda>v. js_return JUndefined),
      ToString = sample_ToString (\<lambda>v. js_return [])\<rparr>"

text \<open>What a caller can see of a result: the state of the promise returned, and the
  class and message of the error object thrown.\<close>

definition promise_of :: "jsval outcome \<times> 'u world \<Rightarrow> promise_state option" where
  "promise_of res =
     (case res of
        (Return (JObject r), w) \<Rightarrow>
          (case heap w r of Some (PromiseObject st) \<Rightarrow> Some st | _ \<Rightarrow> None)
      | _ \<Rightarrow> None)"

definition error_at :: "'u world \<Rightarrow> jsval \<Rightarrow> (string \<times> string) option" where
  "error_at w x =
     (case x of
        JObject r \<Rightarrow>
          (case heap w r of Some (ErrorObject c m) \<Rightarrow> Some (c, m) | _ \<Rightarrow> None)
      | _ \<Rightarrow> None)"

definition thrown_error :: "'a outcome \<times> 'u world \<Rightarrow> (string \<times> string) option" where
  "thrown_error res =
     (case res of
        (Throw e, w) \<Rightarrow> error_at w e
      | _ \<Rightarrow> None)"

definition rejected_error :: "jsval outcome \<times> 'u world \<Rightarrow> (string \<times> string) option" where
  "rejected_error res =
     (case promise_of res of
        Some (Rejected e) \<Rightarrow> error_at (snd res) e
      | _ \<Rightarrow> None)"

text \<open>A world with no objects, whose \<open>user\<close> part counts calls.\<close>

definition world0 :: "nat world" where
  "world0 = \<lparr>heap = Map.empty, next_ref = 0, user = 0\<rparr>"


text \<open>
  A callback that counts its calls in the \<open>user\<close> part of the world and then answers
  with \<open>x\<close>: the call-counting predicate, mapper and supplier of the examples.
\<close>

definition counting :: "'a \<Rightarrow> (nat, 'a) comp" where
  "counting x w = (Return x, w\<lparr>user := Suc (user w)\<rparr>)"

text \<open>The supplier \<^verbatim>\<open>() => TypeError("Expected type.")\<close> of the tests.\<close>

definition TypeError_supplier :: "('u, jsval) comp" where
  "TypeError_supplier = alloc (ErrorObject ''TypeError'' ''Expected type.'')"



text \<open>
  The constructor is \<^verbatim>\<open>protected\<close> and the class calls it in two places only: in
  \<^verbatim>\<open>empty()\<close>, with \<^verbatim>\<open>null\<close>, and in \<^verbatim>\<open>of(value)\<close>, with a value that has passed
  \<^verbatim>\<open>OptionalValue.isPresent\<close>. These are the containers that exist.
\<close>

inductive constructed :: "OptionalValue \<Rightarrow> bool" where
  by_empty: "constructed \<lparr>value = JNull\<rparr>"
| by_of: "OptionalValue_isPresent v \<Longrightarrow> constructed \<lparr>value = v\<rparr>"

section \<open>Basic facts\<close>

lemma OptionalValue_isPresent_iff:
  "OptionalValue_isPresent v \<longleftrightarrow> v \<noteq> JUndefined \<and> v \<noteq> JNull"
  by (cases v) (simp_all add: OptionalValue_isPresent_def strict_neq_def strict_eq_def)

lemma isEmpty_iff_not_isPresent: "isEmpty this \<longleftrightarrow> \<not> isPresent this"
  by (simp add: isEmpty_def isPresent_def)

lemma isEmpty_iff: "isEmpty this \<longleftrightarrow> value this = JUndefined \<or> value this = JNull"
  by (auto simp add: isEmpty_def OptionalValue_isPresent_iff)

lemma isPresent_iff: "isPresent this \<longleftrightarrow> value this \<noteq> JUndefined \<and> value this \<noteq> JNull"
  by (simp add: isPresent_def OptionalValue_isPresent_iff)

lemma isEmpty_OptionalValue_empty: "isEmpty OptionalValue_empty"
  by (simp add: isEmpty_iff OptionalValue_empty_def)

lemma value_OptionalValue_of:
  "value (OptionalValue_of v) = (if v = JUndefined then JNull else v)"
  by (simp add: OptionalValue_of_def OptionalValue_isPresent_iff OptionalValue_empty_def)

lemma js_bind_Return: "m w = (Return x, w') \<Longrightarrow> js_bind m k w = k x w'"
  by (simp add: js_bind_def)

lemma js_bind_Throw: "m w = (Throw e, w') \<Longrightarrow> js_bind m k w = (Throw e, w')"
  by (simp add: js_bind_def)

section \<open>Construction\<close>

text \<open>
  C4. For every value \<open>v\<close> that is neither \<^verbatim>\<open>undefined\<close> nor \<^verbatim>\<open>null\<close>,
  \<^verbatim>\<open>Optional(v)\<close> is Present, \<^verbatim>\<open>isPresent()\<close> is true and \<^verbatim>\<open>get()\<close> is \<open>v\<close>.
  \<^verbatim>\<open>Optional(undefined)\<close> and \<^verbatim>\<open>Optional(null)\<close> are both Empty, and \<^verbatim>\<open>equals\<close>
  answers true for the two of them and for each of them with \<^verbatim>\<open>Optional.empty()\<close>, in
  either order, whatever comparator is passed and without changing the world.
\<close>

theorem wrap_present_or_empty:
  "(v \<noteq> JUndefined \<and> v \<noteq> JNull \<longrightarrow>
      isPresent (Optional v) \<and> \<not> isEmpty (Optional v) \<and> get (Optional v) = v)
   \<and> isEmpty (Optional JUndefined) \<and> isEmpty (Optional JNull)
   \<and> equals (Optional JUndefined) (Optional JNull) cmp w = (Return True, w)
   \<and> equals (Optional JNull) (Optional JUndefined) cmp w = (Return True, w)
   \<and> equals (Optional JUndefined) Optional_empty cmp w = (Return True, w)
   \<and> equals (Optional JNull) Optional_empty cmp w = (Return True, w)
   \<and> equals Optional_empty (Optional JUndefined) cmp w = (Return True, w)
   \<and> equals Optional_empty (Optional JNull) cmp w = (Return True, w)"
proof -
  have present: "isPresent (Optional v) \<and> \<not> isEmpty (Optional v) \<and> get (Optional v) = v"
    if "v \<noteq> JUndefined" "v \<noteq> JNull"
    using that
    by (simp add: Optional_def get_def isPresent_iff isEmpty_iff value_OptionalValue_of)
  have empties: "isEmpty (Optional JUndefined)" "isEmpty (Optional JNull)" "isEmpty Optional_empty"
    by (simp_all add: Optional_def Optional_empty_def isEmpty_iff value_OptionalValue_of
        OptionalValue_empty_def)
  have eq: "equals a b cmp w = (Return True, w)" if "isEmpty a" "isEmpty b" for a b
    using that by (simp add: equals_def js_return_def)
  from present empties eq show ?thesis by blast
qed

theorem wrap_present_or_empty_witness:
  "isPresent (Optional (JNumber (Finite 123)))
   \<and> get (Optional (JNumber (Finite 123))) = JNumber (Finite 123)
   \<and> get (Optional (JString [])) = JString []
   \<and> get (Optional (JBoolean False)) = JBoolean False
   \<and> fst (equals (Optional JUndefined) (Optional JNull) None world0) = Return True"
  using wrap_present_or_empty [of "JNumber (Finite 123)" None world0]
    wrap_present_or_empty [of "JString []" None world0]
    wrap_present_or_empty [of "JBoolean False" None world0]
  by simp

section \<open>Transformation\<close>

lemma map_Optional_present:
  assumes "isPresent this" and "mapper (value this) w = (Return mapped, w')"
  shows "map_Optional this mapper w = (Return (OptionalValue_of mapped), w')"
proof (cases "OptionalValue_isPresent mapped")
  case True
  with assms show ?thesis
    by (simp add: map_Optional_def isEmpty_iff_not_isPresent js_bind_def js_return_def)
next
  case False
  with assms show ?thesis
    by (simp add: map_Optional_def isEmpty_iff_not_isPresent js_bind_def js_return_def
        OptionalValue_of_def)
qed

text \<open>
  C5. \<^verbatim>\<open>map\<close> on a Present container holding \<open>v\<close>, with a mapper that returns \<open>m\<close>:
  the result is the Present container holding \<open>m\<close> when \<open>m\<close> is neither \<^verbatim>\<open>undefined\<close>
  nor \<^verbatim>\<open>null\<close>, and the Empty container when it is one of them; in both cases it is
  \<^verbatim>\<open>OptionalValue.of(m)\<close>, so the result never holds \<^verbatim>\<open>undefined\<close> and holds
  \<^verbatim>\<open>null\<close> only as the Empty container. On an Empty container the result is that
  container and the world is unchanged for every mapper, also one that counts its
  calls: the mapper has not run.
\<close>

theorem map_present_or_empty:
  "(isPresent this \<and> mapper (get this) w = (Return m, w') \<and> m \<noteq> JUndefined \<and> m \<noteq> JNull \<longrightarrow>
      (\<exists>r. map_Optional this mapper w = (Return r, w') \<and> isPresent r \<and> get r = m))
   \<and> (isPresent this \<and> mapper (get this) w = (Return m, w') \<and> (m = JUndefined \<or> m = JNull) \<longrightarrow>
      (\<exists>r. map_Optional this mapper w = (Return r, w') \<and> isEmpty r \<and> r = Optional_empty))
   \<and> (isPresent this \<and> mapper (get this) w = (Return m, w') \<longrightarrow>
      map_Optional this mapper w = (Return (Optional m), w'))
   \<and> (isEmpty this \<longrightarrow> map_Optional this mapper w = (Return this, w))"
proof (intro conjI impI)
  assume a: "isPresent this \<and> mapper (get this) w = (Return m, w') \<and> m \<noteq> JUndefined \<and> m \<noteq> JNull"
  then have "map_Optional this mapper w = (Return (OptionalValue_of m), w')"
    by (simp add: map_Optional_present get_def)
  moreover from a have "isPresent (OptionalValue_of m) \<and> get (OptionalValue_of m) = m"
    by (simp add: isPresent_iff get_def value_OptionalValue_of)
  ultimately show "\<exists>r. map_Optional this mapper w = (Return r, w') \<and> isPresent r \<and> get r = m"
    by blast
next
  assume a: "isPresent this \<and> mapper (get this) w = (Return m, w') \<and> (m = JUndefined \<or> m = JNull)"
  then have "map_Optional this mapper w = (Return (OptionalValue_of m), w')"
    by (simp add: map_Optional_present get_def)
  moreover from a have "OptionalValue_of m = Optional_empty"
    by (auto simp add: OptionalValue_of_def OptionalValue_isPresent_iff Optional_empty_def)
  moreover have "isEmpty Optional_empty"
    by (simp add: Optional_empty_def isEmpty_OptionalValue_empty)
  ultimately show
    "\<exists>r. map_Optional this mapper w = (Return r, w') \<and> isEmpty r \<and> r = Optional_empty"
    by simp
next
  assume "isPresent this \<and> mapper (get this) w = (Return m, w')"
  then show "map_Optional this mapper w = (Return (Optional m), w')"
    by (simp add: map_Optional_present get_def Optional_def)
next
  assume "isEmpty this"
  then show "map_Optional this mapper w = (Return this, w)"
    by (simp add: map_Optional_def js_return_def)
qed

theorem map_present_or_empty_witness:
  "map_Optional (Optional (JNumber (Finite 123))) (\<lambda>v. counting (JString ''123'')) world0
     = (Return (Optional (JString ''123'')), world0\<lparr>user := 1\<rparr>)
   \<and> map_Optional (Optional (JNumber (Finite 123))) (\<lambda>v. counting JUndefined) world0
     = (Return Optional_empty, world0\<lparr>user := 1\<rparr>)
   \<and> map_Optional Optional_empty (\<lambda>v. counting (JString ''123'')) world0
     = (Return Optional_empty, world0)
   \<and> user (snd (map_Optional Optional_empty (\<lambda>v. counting (JString ''123'')) world0)) = 0"
proof -
  let ?c = "Optional (JNumber (Finite 123))"
  have p: "isPresent ?c"
    by (simp add: Optional_def isPresent_iff value_OptionalValue_of)
  have e: "isEmpty Optional_empty"
    by (simp add: Optional_empty_def isEmpty_OptionalValue_empty)
  have c1: "counting (JString ''123'') world0 = (Return (JString ''123''), world0\<lparr>user := 1\<rparr>)"
    and c2: "counting JUndefined world0 = (Return JUndefined, world0\<lparr>user := 1\<rparr>)"
    by (simp_all add: counting_def world0_def)
  have u: "Optional JUndefined = Optional_empty"
    by (simp add: Optional_def Optional_empty_def OptionalValue_of_def OptionalValue_isPresent_iff)
  from p c1 have 1: "map_Optional ?c (\<lambda>v. counting (JString ''123'')) world0
      = (Return (Optional (JString ''123'')), world0\<lparr>user := 1\<rparr>)"
    using map_present_or_empty [of ?c "\<lambda>v. counting (JString ''123'')" world0
        "JString ''123''" "world0\<lparr>user := 1\<rparr>"]
    by simp
  from p c2 u have 2: "map_Optional ?c (\<lambda>v. counting JUndefined) world0
      = (Return Optional_empty, world0\<lparr>user := 1\<rparr>)"
    using map_present_or_empty [of ?c "\<lambda>v. counting JUndefined" world0
        JUndefined "world0\<lparr>user := 1\<rparr>"]
    by simp
  from e have 3: "map_Optional Optional_empty (\<lambda>v. counting (JString ''123'')) world0
      = (Return Optional_empty, world0)"
    using map_present_or_empty [of Optional_empty "\<lambda>v. counting (JString ''123'')" world0]
    by simp
  have 4: "user world0 = 0" by (simp add: world0_def)
  from 1 2 3 4 show ?thesis by simp
qed

text \<open>
  C6. \<^verbatim>\<open>filter\<close> on a Present container returns that container, value and all, when
  the predicate answers true for the value, and the Empty container when it answers
  false. On an Empty container it returns that container and leaves the world as it
  was for every predicate, also one that counts its calls: the predicate has not run.
\<close>

theorem filter_present_or_empty:
  "(isPresent this \<and> predicate (get this) w = (Return True, w') \<longrightarrow>
      filter_Optional this predicate w = (Return this, w'))
   \<and> (isPresent this \<and> predicate (get this) w = (Return False, w') \<longrightarrow>
      filter_Optional this predicate w = (Return Optional_empty, w') \<and> isEmpty Optional_empty)
   \<and> (isEmpty this \<longrightarrow> filter_Optional this predicate w = (Return this, w))"
  by (simp add: filter_Optional_def isEmpty_iff_not_isPresent [of this] get_def js_bind_def
      js_return_def Optional_empty_def isEmpty_OptionalValue_empty)

theorem filter_present_or_empty_witness:
  "filter_Optional (Optional (JNumber (Finite 1))) (\<lambda>v. counting (v \<noteq> JNull)) world0
     = (Return (Optional (JNumber (Finite 1))), world0\<lparr>user := 1\<rparr>)
   \<and> filter_Optional (Optional (JNumber (Finite 1))) (\<lambda>v. counting (v = JNull)) world0
     = (Return Optional_empty, world0\<lparr>user := 1\<rparr>)
   \<and> filter_Optional Optional_empty (\<lambda>v. counting True) world0 = (Return Optional_empty, world0)
   \<and> user (snd (filter_Optional Optional_empty (\<lambda>v. counting True) world0)) = 0"
proof -
  let ?c = "Optional (JNumber (Finite 1))"
  have p: "isPresent ?c" and g: "get ?c = JNumber (Finite 1)"
    by (simp_all add: Optional_def isPresent_iff get_def value_OptionalValue_of)
  have e: "isEmpty Optional_empty"
    by (simp add: Optional_empty_def isEmpty_OptionalValue_empty)
  have c: "counting b world0 = (Return b, world0\<lparr>user := 1\<rparr>)" for b :: bool
    by (simp add: counting_def world0_def)
  from p g c have 1: "filter_Optional ?c (\<lambda>v. counting (v \<noteq> JNull)) world0
      = (Return ?c, world0\<lparr>user := 1\<rparr>)"
    using filter_present_or_empty [of ?c "\<lambda>v. counting (v \<noteq> JNull)" world0
        "world0\<lparr>user := 1\<rparr>"]
    by simp
  from p g c have 2: "filter_Optional ?c (\<lambda>v. counting (v = JNull)) world0
      = (Return Optional_empty, world0\<lparr>user := 1\<rparr>)"
    using filter_present_or_empty [of ?c "\<lambda>v. counting (v = JNull)" world0
        "world0\<lparr>user := 1\<rparr>"]
    by simp
  from e have 3: "filter_Optional Optional_empty (\<lambda>v. counting True) world0
      = (Return Optional_empty, world0)"
    using filter_present_or_empty [of Optional_empty "\<lambda>v. counting True" world0]
    by simp
  have 4: "user world0 = 0" by (simp add: world0_def)
  from 1 2 3 4 show ?thesis by simp
qed

section \<open>Fallback\<close>

text \<open>
  C8. On a Present container \<^verbatim>\<open>orElse\<close> and \<^verbatim>\<open>orElseGet\<close> return the contained value,
  and \<^verbatim>\<open>orElseGet\<close> leaves the world as it was for every supplier, also one that
  counts its calls: the supplier has not run. On an Empty container \<^verbatim>\<open>orElse\<close>
  returns the fallback, and \<^verbatim>\<open>orElseGet\<close> is one call of the supplier: its result,
  its effects, and its exception if it throws.
\<close>

theorem orElse_orElseGet:
  "(isPresent this \<longrightarrow>
      orElse this other = get this \<and> orElseGet this supplier w = (Return (get this), w))
   \<and> (isEmpty this \<longrightarrow>
      orElse this other = other \<and> orElseGet this supplier w = supplier w)"
  by (simp add: orElse_def orElseGet_def get_def js_return_def isEmpty_iff_not_isPresent)

theorem orElse_orElseGet_witness:
  "orElse (Optional (JNumber (Finite 123))) (JNumber (Finite 456)) = JNumber (Finite 123)
   \<and> orElseGet (Optional (JNumber (Finite 123))) (counting (JNumber (Finite 456))) world0
     = (Return (JNumber (Finite 123)), world0)
   \<and> orElse Optional_empty (JNumber (Finite 456)) = JNumber (Finite 456)
   \<and> orElseGet Optional_empty (counting (JNumber (Finite 456))) world0
     = (Return (JNumber (Finite 456)), world0\<lparr>user := 1\<rparr>)"
proof -
  let ?c = "Optional (JNumber (Finite 123))"
  have p: "isPresent ?c" and g: "get ?c = JNumber (Finite 123)"
    by (simp_all add: Optional_def isPresent_iff get_def value_OptionalValue_of)
  have e: "isEmpty Optional_empty"
    by (simp add: Optional_empty_def isEmpty_OptionalValue_empty)
  have c: "counting (JNumber (Finite 456)) world0
      = (Return (JNumber (Finite 456)), world0\<lparr>user := 1\<rparr>)"
    by (simp add: counting_def world0_def)
  from p g have 1: "orElse ?c (JNumber (Finite 456)) = JNumber (Finite 123)
      \<and> orElseGet ?c (counting (JNumber (Finite 456))) world0
        = (Return (JNumber (Finite 123)), world0)"
    using orElse_orElseGet [of ?c "JNumber (Finite 456)" "counting (JNumber (Finite 456))" world0]
    by simp
  from e c have 2: "orElse Optional_empty (JNumber (Finite 456)) = JNumber (Finite 456)
      \<and> orElseGet Optional_empty (counting (JNumber (Finite 456))) world0
        = (Return (JNumber (Finite 456)), world0\<lparr>user := 1\<rparr>)"
    using orElse_orElseGet [of Optional_empty "JNumber (Finite 456)"
        "counting (JNumber (Finite 456))" world0]
    by simp
  from 1 2 show ?thesis by simp
qed

section \<open>Comparison\<close>

text \<open>
  C7. \<^verbatim>\<open>equals\<close> answers true when both containers are Empty and false when exactly
  one is, in both cases without calling the comparator. When both are Present it is
  the comparator applied to the two values if one is given, and \<^verbatim>\<open>===\<close> on the two
  values otherwise. That is identity, not deep equality: containers of two different
  object references are not equal, whatever the store holds at the two references.
\<close>

theorem equals_cases:
  "(isEmpty this \<and> isEmpty other \<longrightarrow> equals this other comparator w = (Return True, w))
   \<and> (isEmpty this \<and> isPresent other \<longrightarrow> equals this other comparator w = (Return False, w))
   \<and> (isPresent this \<and> isEmpty other \<longrightarrow> equals this other comparator w = (Return False, w))
   \<and> (isPresent this \<and> isPresent other \<longrightarrow>
        equals this other (Some compare) w = compare (get this) (get other) w
        \<and> equals this other None w = (Return (strict_eq (get this) (get other)), w))
   \<and> (r \<noteq> r' \<longrightarrow> equals (Optional (JObject r)) (Optional (JObject r')) None w = (Return False, w))"
proof -
  have obj: "equals (Optional (JObject r)) (Optional (JObject r')) None w = (Return False, w)"
    if "r \<noteq> r'"
    using that
    by (simp add: equals_def Optional_def isEmpty_iff value_OptionalValue_of strict_eq_def
        js_return_def)
  have rest: "isEmpty this \<and> isEmpty other \<longrightarrow> equals this other comparator w = (Return True, w)"
    "isEmpty this \<and> isPresent other \<longrightarrow> equals this other comparator w = (Return False, w)"
    "isPresent this \<and> isEmpty other \<longrightarrow> equals this other comparator w = (Return False, w)"
    "isPresent this \<and> isPresent other \<longrightarrow>
        equals this other (Some compare) w = compare (get this) (get other) w
        \<and> equals this other None w = (Return (strict_eq (get this) (get other)), w)"
    by (simp_all add: equals_def get_def js_return_def isEmpty_iff_not_isPresent)
  from obj rest show ?thesis by blast
qed

theorem equals_cases_witness:
  "equals (Optional (JNumber (Finite 123))) (Optional (JNumber (Finite 123))) None world0
     = (Return True, world0)
   \<and> equals (Optional (JNumber (Finite 123))) (Optional (JNumber (Finite 456))) None world0
     = (Return False, world0)
   \<and> equals (Optional (JNumber (Finite 123))) (Optional (JNumber (Finite 456)))
       (Some (\<lambda>a b. js_return (typeof a = typeof b))) world0
     = (Return True, world0)
   \<and> equals Optional_empty Optional_empty None world0 = (Return True, world0)
   \<and> equals (Optional (JNumber (Finite 123))) Optional_empty None world0 = (Return False, world0)
   \<and> equals Optional_empty (Optional (JNumber (Finite 123))) None world0 = (Return False, world0)
   \<and> equals (Optional (JObject 0)) (Optional (JObject 1)) None world0 = (Return False, world0)
   \<and> equals (Optional (JNumber NaN)) (Optional (JNumber NaN)) None world0 = (Return False, world0)"
proof -
  let ?a = "Optional (JNumber (Finite 123))" and ?b = "Optional (JNumber (Finite 456))"
  let ?n = "Optional (JNumber NaN)"
  let ?f = "\<lambda>a b. js_return (typeof a = typeof b) :: (nat, bool) comp"
  have p: "isPresent ?a" "isPresent ?b" "isPresent ?n"
    and g: "get ?a = JNumber (Finite 123)" "get ?b = JNumber (Finite 456)"
      "get ?n = JNumber NaN"
    by (simp_all add: Optional_def isPresent_iff get_def value_OptionalValue_of)
  have e: "isEmpty Optional_empty"
    by (simp add: Optional_empty_def isEmpty_OptionalValue_empty)
  have 1: "equals ?a ?a None world0 = (Return True, world0)"
    using p g equals_cases [of ?a ?a None world0 ?f] by (simp add: strict_eq_def)
  have 2: "equals ?a ?b None world0 = (Return False, world0)"
    and 3: "equals ?a ?b (Some ?f) world0 = (Return True, world0)"
    using p g equals_cases [of ?a ?b None world0 ?f]
    by (simp_all add: strict_eq_def js_return_def)
  have 4: "equals Optional_empty Optional_empty None world0 = (Return True, world0)"
    using e equals_cases [of Optional_empty Optional_empty None world0] by simp
  have 5: "equals ?a Optional_empty None world0 = (Return False, world0)"
    using p e equals_cases [of ?a Optional_empty None world0] by simp
  have 6: "equals Optional_empty ?a None world0 = (Return False, world0)"
    using p e equals_cases [of Optional_empty ?a None world0] by simp
  have 7: "equals (Optional (JObject 0)) (Optional (JObject 1)) None world0
      = (Return False, world0)"
    using equals_cases [of Optional_empty Optional_empty None world0 ?f 0 1] by simp
  have 8: "equals ?n ?n None world0 = (Return False, world0)"
    using p g equals_cases [of ?n ?n None world0 ?f] by (simp add: strict_eq_def)
  from 1 2 3 4 5 6 7 8 show ?thesis by simp
qed

section \<open>Extraction that can fail\<close>

lemma new_Error_result:
  "new_Error m w =
     (Return (JObject (next_ref w)),
      w\<lparr>heap := (heap w)(next_ref w \<mapsto> ErrorObject ''Error'' m), next_ref := Suc (next_ref w)\<rparr>)"
  by (simp add: new_Error_def alloc_def)

lemma error_at_new_Error: "error_at (snd (new_Error m w)) (JObject (next_ref w)) = Some (''Error'', m)"
  by (simp add: new_Error_result error_at_def)

lemma parseError_NoArgument: "parseError NoArgument = new_Error ''Value not present.''"
  by (simp add: parseError_def)

lemma parseError_Message:
  "parseError (Message m) = (if m = [] then new_Error ''Value not present.'' else new_Error m)"
  by (simp add: parseError_def)

lemma parseError_ErrorSupplier: "parseError (ErrorSupplier f) = f"
  by (simp add: parseError_def)

lemma orElseThrow_empty:
  "isEmpty this \<Longrightarrow> orElseThrow this a w =
     (case parseError a w of (Return e, w') \<Rightarrow> (Throw e, w') | (Throw x, w') \<Rightarrow> (Throw x, w'))"
  by (simp add: orElseThrow_def isEmpty_iff_not_isPresent js_bind_def js_throw_def
      split: prod.splits outcome.splits)

lemma orElseThrow_new_Error:
  assumes "isEmpty this" and "parseError a = new_Error m"
  shows "orElseThrow this a w = (Throw (JObject (next_ref w)), snd (new_Error m w))"
    and "thrown_error (orElseThrow this a w) = Some (''Error'', m)"
  using assms
  by (simp_all add: orElseThrow_empty new_Error_result thrown_error_def error_at_def)

text \<open>
  C1, as the code has it. On an Empty container \<^verbatim>\<open>orElseThrow\<close> always throws.
  With no argument it throws a new \<^verbatim>\<open>Error\<close> whose message is
  \<^verbatim>\<open>"Value not present."\<close>; with a string \<open>X\<close> that is not empty, a new \<^verbatim>\<open>Error\<close>
  whose message is \<open>X\<close>; with a function that returns \<open>e\<close>, the very value \<open>e\<close>, in
  the world the function left, so with the class and message \<open>e\<close> has there. On a
  Present container it returns the contained value, does not throw and does not call
  the function.
\<close>

theorem orElseThrow_resolution:
  "(isEmpty this \<longrightarrow>
      (\<exists>e w'. orElseThrow this a w = (Throw e, w'))
      \<and> orElseThrow this NoArgument w
          = (Throw (JObject (next_ref w)), snd (new_Error ''Value not present.'' w))
      \<and> thrown_error (orElseThrow this NoArgument w) = Some (''Error'', ''Value not present.'')
      \<and> (X \<noteq> [] \<longrightarrow>
          orElseThrow this (Message X) w = (Throw (JObject (next_ref w)), snd (new_Error X w))
          \<and> thrown_error (orElseThrow this (Message X) w) = Some (''Error'', X))
      \<and> (supplier w = (Return e, w') \<longrightarrow>
          orElseThrow this (ErrorSupplier supplier) w = (Throw e, w')
          \<and> thrown_error (orElseThrow this (ErrorSupplier supplier) w) = error_at w' e))
   \<and> (isPresent this \<longrightarrow> orElseThrow this a w = (Return (get this), w))"
proof (intro conjI impI)
  assume e: "isEmpty this"
  show "\<exists>e w'. orElseThrow this a w = (Throw e, w')"
    using e by (cases "parseError a w") (auto simp add: orElseThrow_empty split: outcome.splits)
  show "orElseThrow this NoArgument w
      = (Throw (JObject (next_ref w)), snd (new_Error ''Value not present.'' w))"
    using e by (rule orElseThrow_new_Error(1)) (rule parseError_NoArgument)
  show "thrown_error (orElseThrow this NoArgument w) = Some (''Error'', ''Value not present.'')"
    using e by (rule orElseThrow_new_Error(2)) (rule parseError_NoArgument)
  {
    assume "X \<noteq> []"
    then have "parseError (Message X) = (new_Error X :: ('a, jsval) comp)"
      by (simp add: parseError_Message)
    then have p: "parseError (Message X) = (new_Error X :: ('a, jsval) comp)" .
    from e p show "orElseThrow this (Message X) w
        = (Throw (JObject (next_ref w)), snd (new_Error X w))"
      by (rule orElseThrow_new_Error(1))
    from e p show "thrown_error (orElseThrow this (Message X) w) = Some (''Error'', X)"
      by (rule orElseThrow_new_Error(2))
  }
  {
    assume "supplier w = (Return e, w')"
    with e show "orElseThrow this (ErrorSupplier supplier) w = (Throw e, w')"
      and "thrown_error (orElseThrow this (ErrorSupplier supplier) w) = error_at w' e"
      by (simp_all add: orElseThrow_empty parseError_ErrorSupplier thrown_error_def)
  }
next
  assume "isPresent this"
  then show "orElseThrow this a w = (Return (get this), w)"
    by (simp add: orElseThrow_def get_def js_return_def)
qed

theorem orElseThrow_resolution_witness:
  "thrown_error (orElseThrow Optional_empty NoArgument world0)
     = Some (''Error'', ''Value not present.'')
   \<and> thrown_error (orElseThrow Optional_empty (Message ''No value.'') world0)
     = Some (''Error'', ''No value.'')
   \<and> thrown_error (orElseThrow Optional_empty (ErrorSupplier TypeError_supplier) world0)
     = Some (''TypeError'', ''Expected type.'')
   \<and> orElseThrow (Optional (JNumber (Finite 123))) (ErrorSupplier TypeError_supplier) world0
     = (Return (JNumber (Finite 123)), world0)"
proof -
  let ?c = "Optional (JNumber (Finite 123))"
  let ?w = "snd (TypeError_supplier world0)"
  have p: "isPresent ?c" and g: "get ?c = JNumber (Finite 123)"
    by (simp_all add: Optional_def isPresent_iff get_def value_OptionalValue_of)
  have e: "isEmpty Optional_empty"
    by (simp add: Optional_empty_def isEmpty_OptionalValue_empty)
  have s: "TypeError_supplier world0 = (Return (JObject 0), ?w)"
    by (simp add: TypeError_supplier_def alloc_def world0_def)
  have t: "error_at ?w (JObject 0) = Some (''TypeError'', ''Expected type.'')"
    by (simp add: TypeError_supplier_def alloc_def world0_def error_at_def)
  have n: "''No value.'' \<noteq> []" by simp
  note r = orElseThrow_resolution [of Optional_empty NoArgument world0 "''No value.''"
      TypeError_supplier "JObject 0" ?w]
  from r e have 1: "thrown_error (orElseThrow Optional_empty NoArgument world0)
      = Some (''Error'', ''Value not present.'')"
    by blast
  from r e n have 2: "thrown_error (orElseThrow Optional_empty (Message ''No value.'') world0)
      = Some (''Error'', ''No value.'')"
    by blast
  from r e s have "thrown_error (orElseThrow Optional_empty (ErrorSupplier TypeError_supplier) world0)
      = error_at ?w (JObject 0)"
    by blast
  from this t have 3:
    "thrown_error (orElseThrow Optional_empty (ErrorSupplier TypeError_supplier) world0)
      = Some (''TypeError'', ''Expected type.'')"
    by (rule trans)
  from p have "orElseThrow ?c (ErrorSupplier TypeError_supplier) world0 = (Return (get ?c), world0)"
    using orElseThrow_resolution [of ?c "ErrorSupplier TypeError_supplier" world0]
    by blast
  with g have 4: "orElseThrow ?c (ErrorSupplier TypeError_supplier) world0
      = (Return (JNumber (Finite 123)), world0)"
    by simp
  from 1 2 3 4 show ?thesis by blast
qed

text \<open>
  The claim as the specification states it, "for every string", fails at the empty
  string: \<^verbatim>\<open>Optional.empty().orElseThrow("")\<close> throws an \<^verbatim>\<open>Error\<close> whose message is
  \<^verbatim>\<open>"Value not present."\<close>, not the empty message.
\<close>

theorem orElseThrow_empty_message_counterexample:
  "thrown_error (orElseThrow Optional_empty (Message []) world0)
     = Some (''Error'', ''Value not present.'')
   \<and> thrown_error (orElseThrow Optional_empty (Message []) world0) \<noteq> Some (''Error'', [])"
  by (simp add: orElseThrow_def Optional_empty_def OptionalValue_empty_def isPresent_iff
      parseError_def new_Error_def alloc_def js_bind_def js_throw_def thrown_error_def
      error_at_def world0_def)

section \<open>\<^verbatim>\<open>toPromise\<close>\<close>

lemma toPromise_empty:
  assumes "isEmpty this" and "parseError a w = (Return e, w')"
  shows "toPromise this a w = alloc (PromiseObject (Rejected e)) w'"
  using assms
  by (simp add: toPromise_def isEmpty_iff_not_isPresent js_bind_def Promise_reject_def)

lemma promise_of_alloc: "promise_of (alloc (PromiseObject st) w) = Some st"
  by (simp add: promise_of_def alloc_def)


text \<open>
  C9. On an Empty container the empty string is treated as no argument at all:
  \<^verbatim>\<open>parseError\<close> tests \<^verbatim>\<open>!messageOrErrorSupplier\<close>, and the empty string is falsy. So
  \<^verbatim>\<open>orElseThrow("")\<close> does what \<^verbatim>\<open>orElseThrow()\<close> does and throws a new \<^verbatim>\<open>Error\<close>
  with the message \<^verbatim>\<open>"Value not present."\<close>, and \<^verbatim>\<open>toPromise("")\<close> does what
  \<^verbatim>\<open>toPromise()\<close> does and returns a promise rejected with such an error.
\<close>

theorem empty_message_is_no_argument:
  "parseError (Message []) w = parseError NoArgument w
   \<and> (isEmpty this \<longrightarrow>
        orElseThrow this (Message []) w = orElseThrow this NoArgument w
        \<and> thrown_error (orElseThrow this (Message []) w) = Some (''Error'', ''Value not present.'')
        \<and> toPromise this (Message []) w = toPromise this NoArgument w
        \<and> rejected_error (toPromise this (Message []) w) = Some (''Error'', ''Value not present.''))"
proof -
  have pe: "parseError (Message []) = (parseError NoArgument :: ('a, jsval) comp)"
    by (simp add: parseError_def)
  have th: "thrown_error (orElseThrow this NoArgument w) = Some (''Error'', ''Value not present.'')"
    if "isEmpty this"
    using that by (rule orElseThrow_new_Error(2)) (rule parseError_NoArgument)
  have rj: "rejected_error (toPromise this NoArgument w) = Some (''Error'', ''Value not present.'')"
    if "isEmpty this"
  proof -
    have "parseError NoArgument w
        = (Return (JObject (next_ref w)), snd (new_Error ''Value not present.'' w))"
      by (simp add: parseError_NoArgument new_Error_result)
    with that have "toPromise this NoArgument w
        = alloc (PromiseObject (Rejected (JObject (next_ref w))))
            (snd (new_Error ''Value not present.'' w))"
      by (rule toPromise_empty)
    then show ?thesis
      by (simp add: rejected_error_def promise_of_alloc)
        (simp add: alloc_def new_Error_def error_at_def)
  qed
  have "orElseThrow this (Message []) w = orElseThrow this NoArgument w"
    and "toPromise this (Message []) w = toPromise this NoArgument w"
    by (simp_all add: orElseThrow_def toPromise_def pe)
  with pe th rj show ?thesis by simp
qed

theorem empty_message_is_no_argument_witness:
  "thrown_error (orElseThrow Optional_empty (Message []) world0)
     = Some (''Error'', ''Value not present.'')
   \<and> rejected_error (toPromise Optional_empty (Message []) world0)
     = Some (''Error'', ''Value not present.'')
   \<and> orElseThrow Optional_empty (Message []) world0 = orElseThrow Optional_empty NoArgument world0
   \<and> toPromise Optional_empty (Message []) world0 = toPromise Optional_empty NoArgument world0"
proof -
  have "isEmpty Optional_empty"
    by (simp add: Optional_empty_def isEmpty_OptionalValue_empty)
  then show ?thesis
    using empty_message_is_no_argument [of world0 Optional_empty] by blast
qed






section \<open>The stored marker\<close>

lemma constructed_iff: "constructed this \<longleftrightarrow> value this \<noteq> JUndefined"
proof
  assume "constructed this"
  then show "value this \<noteq> JUndefined"
    by (cases rule: constructed.cases) (simp_all add: OptionalValue_isPresent_iff)
next
  assume u: "value this \<noteq> JUndefined"
  show "constructed this"
  proof (cases "value this = JNull")
    case True
    then have "this = \<lparr>value = JNull\<rparr>" by simp
    then show ?thesis by (simp add: by_empty)
  next
    case False
    with u have "OptionalValue_isPresent (value this)"
      by (simp add: OptionalValue_isPresent_iff)
    then have "constructed \<lparr>value = value this\<rparr>" by (rule by_of)
    moreover have "this = \<lparr>value = value this\<rparr>" by simp
    ultimately show ?thesis by simp
  qed
qed

lemma constructed_OptionalValue_empty: "constructed OptionalValue_empty"
  by (simp add: OptionalValue_empty_def by_empty)

lemma constructed_OptionalValue_of: "constructed (OptionalValue_of v)"
  by (simp add: constructed_iff value_OptionalValue_of)

lemma filter_Optional_result:
  assumes "filter_Optional this predicate w = (Return r, w')"
  shows "r = this \<or> r = OptionalValue_empty"
  using assms
  by (auto simp add: filter_Optional_def js_bind_def js_return_def
      split: if_splits prod.splits outcome.splits)

lemma map_Optional_result:
  assumes "map_Optional this mapper w = (Return r, w')"
  shows "r = this \<or> r = OptionalValue_empty \<or> (\<exists>m. r = OptionalValue_of m)"
  using assms
  by (auto simp add: map_Optional_def js_bind_def js_return_def
      split: if_splits prod.splits outcome.splits)

text \<open>
  C10. An Empty container stores \<^verbatim>\<open>null\<close>, never \<^verbatim>\<open>undefined\<close>.
  \<^verbatim>\<open>Optional.empty().get()\<close>, \<^verbatim>\<open>Optional(undefined).get()\<close> and
  \<^verbatim>\<open>Optional(null).get()\<close> are \<^verbatim>\<open>null\<close>. Every container the two factories build is
  one of the containers that exist, \<^verbatim>\<open>filter\<close> and \<^verbatim>\<open>map\<close> return only such
  containers when applied to one, and each of them that is Empty has \<^verbatim>\<open>get()\<close> equal
  to \<^verbatim>\<open>null\<close>. In particular \<^verbatim>\<open>filter\<close> with a predicate that answers false, and
  \<^verbatim>\<open>map\<close> with a mapper that returns \<^verbatim>\<open>undefined\<close> or \<^verbatim>\<open>null\<close>, return a container
  whose \<^verbatim>\<open>get()\<close> is \<^verbatim>\<open>null\<close>.
\<close>

theorem empty_stores_null:
  "get Optional_empty = JNull \<and> get (Optional JUndefined) = JNull \<and> get (Optional JNull) = JNull
   \<and> constructed Optional_empty \<and> constructed (Optional v)
   \<and> (constructed this \<and> isEmpty this \<longrightarrow> get this = JNull)
   \<and> (constructed this \<and> filter_Optional this predicate w = (Return r, w') \<longrightarrow> constructed r)
   \<and> (constructed this \<and> map_Optional this mapper w = (Return r, w') \<longrightarrow> constructed r)
   \<and> (isPresent this \<and> predicate (get this) w = (Return False, w') \<longrightarrow>
        (\<exists>r. filter_Optional this predicate w = (Return r, w') \<and> isEmpty r \<and> get r = JNull))
   \<and> (isPresent this \<and> mapper (get this) w = (Return m, w') \<and> (m = JUndefined \<or> m = JNull) \<longrightarrow>
        (\<exists>r. map_Optional this mapper w = (Return r, w') \<and> isEmpty r \<and> get r = JNull))"
proof -
  have factories: "get Optional_empty = JNull" "get (Optional JUndefined) = JNull"
    "get (Optional JNull) = JNull" "constructed Optional_empty" "constructed (Optional v)"
    by (simp_all add: Optional_def Optional_empty_def get_def value_OptionalValue_of
        OptionalValue_empty_def constructed_iff)
  have inv: "get this = JNull" if "constructed this" "isEmpty this"
    using that by (auto simp add: constructed_iff isEmpty_iff get_def)
  have fil: "constructed r"
    if "constructed this" "filter_Optional this predicate w = (Return r, w')"
    using that filter_Optional_result [of this predicate w r w']
    by (auto simp add: constructed_OptionalValue_empty)
  have mp: "constructed r"
    if "constructed this" "map_Optional this mapper w = (Return r, w')"
    using that map_Optional_result [of this mapper w r w']
    by (auto simp add: constructed_OptionalValue_empty constructed_OptionalValue_of)
  have fil_false: "\<exists>r. filter_Optional this predicate w = (Return r, w') \<and> isEmpty r \<and> get r = JNull"
    if "isPresent this" "predicate (get this) w = (Return False, w')"
    using that
    by (simp add: filter_Optional_def isEmpty_iff_not_isPresent [of this] get_def js_bind_def
        js_return_def isEmpty_OptionalValue_empty) (simp add: OptionalValue_empty_def)
  have mp_marker: "\<exists>r. map_Optional this mapper w = (Return r, w') \<and> isEmpty r \<and> get r = JNull"
    if "isPresent this" "mapper (get this) w = (Return m, w')" "m = JUndefined \<or> m = JNull"
  proof -
    from that have "map_Optional this mapper w = (Return (OptionalValue_of m), w')"
      by (simp add: map_Optional_present get_def)
    moreover from that(3) have "isEmpty (OptionalValue_of m) \<and> get (OptionalValue_of m) = JNull"
      by (auto simp add: isEmpty_iff get_def value_OptionalValue_of)
    ultimately show ?thesis by blast
  qed
  from factories inv fil mp fil_false mp_marker show ?thesis by blast
qed

theorem empty_stores_null_witness:
  "get Optional_empty = JNull \<and> get (Optional JUndefined) = JNull
   \<and> constructed (Optional JUndefined) \<and> isEmpty (Optional JUndefined)
   \<and> constructed (Optional (JNumber (Finite 1)))
   \<and> filter_Optional (Optional (JNumber (Finite 1))) (\<lambda>v. counting False) world0
       = (Return Optional_empty, world0\<lparr>user := 1\<rparr>)
   \<and> map_Optional (Optional (JNumber (Finite 1))) (\<lambda>v. counting JUndefined) world0
       = (Return Optional_empty, world0\<lparr>user := 1\<rparr>)
   \<and> constructed Optional_empty \<and> isEmpty Optional_empty
   \<and> (\<exists>r. filter_Optional (Optional (JNumber (Finite 1))) (\<lambda>v. counting False) world0
             = (Return r, world0\<lparr>user := 1\<rparr>) \<and> isEmpty r \<and> get r = JNull)
   \<and> (\<exists>r. map_Optional (Optional (JNumber (Finite 1))) (\<lambda>v. counting JUndefined) world0
             = (Return r, world0\<lparr>user := 1\<rparr>) \<and> isEmpty r \<and> get r = JNull)"
proof -
  let ?c = "Optional (JNumber (Finite 1))"
  let ?w = "world0\<lparr>user := 1\<rparr>"
  have p: "isPresent ?c"
    by (simp add: Optional_def isPresent_iff value_OptionalValue_of)
  have u: "isEmpty (Optional JUndefined)"
    by (simp add: Optional_def isEmpty_iff value_OptionalValue_of)
  have e: "isEmpty Optional_empty"
    by (simp add: Optional_empty_def isEmpty_OptionalValue_empty)
  have c1: "counting False world0 = (Return False, ?w)"
    and c2: "counting JUndefined world0 = (Return JUndefined, ?w)"
    by (simp_all add: counting_def world0_def)
  from p c1 have f: "filter_Optional ?c (\<lambda>v. counting False) world0 = (Return Optional_empty, ?w)"
    by (simp add: filter_Optional_def isEmpty_iff_not_isPresent js_bind_def js_return_def
        Optional_empty_def)
  from p c2 have m: "map_Optional ?c (\<lambda>v. counting JUndefined) world0 = (Return Optional_empty, ?w)"
    by (simp add: map_Optional_def isEmpty_iff_not_isPresent js_bind_def js_return_def
        Optional_empty_def OptionalValue_isPresent_iff)
  note q = empty_stores_null [of JUndefined ?c "\<lambda>v. counting False" world0 Optional_empty ?w
      "\<lambda>v. counting JUndefined" JUndefined]
  note q' = empty_stores_null [of "JNumber (Finite 1)" Optional_empty "\<lambda>v. counting False" world0
      Optional_empty ?w "\<lambda>v. counting JUndefined" JUndefined]
  from q have 1: "get Optional_empty = JNull"
    by blast
  from q have 2: "get (Optional JUndefined) = JNull"
    by blast
  from q have 3: "constructed (Optional JUndefined)"
    by blast
  from q' have 4: "constructed ?c"
    by blast
  from q 4 f have 5: "constructed Optional_empty"
    by blast
  from q' 5 e have 6: "get Optional_empty = JNull"
    by blast
  from q p c1 have 7: "\<exists>r. filter_Optional ?c (\<lambda>v. counting False) world0 = (Return r, ?w)
      \<and> isEmpty r \<and> get r = JNull"
    by blast
  from q p c2 have 8: "\<exists>r. map_Optional ?c (\<lambda>v. counting JUndefined) world0 = (Return r, ?w)
      \<and> isEmpty r \<and> get r = JNull"
    by blast
  from 1 2 3 u 4 f m 5 e 7 8 show ?thesis by (intro conjI)
qed

section \<open>\<^verbatim>\<open>toString\<close>\<close>

lemma Present_template_Return:
  "ToString H x w = (Return t, w') \<Longrightarrow>
     Present_template H x w = (Return (''Optional.Present<'' @ t @ ''>''), w')"
  by (simp add: Present_template_def js_bind_def js_return_def)

lemma toString_serialized:
  assumes "isPresent this"
    and "typeof (value this) = ''object'' \<or> typeof (value this) = ''string''"
    and "JSON_stringify H (value this) w = (Return j, w1)"
    and "ToString H j w1 = (Return t, w2)"
  shows "toString H this w = (Return (''Optional.Present<'' @ t @ ''>''), w2)"
proof -
  from assms(3,4)
  have "js_bind (JSON_stringify H (value this)) (Present_template H) w
      = (Return (''Optional.Present<'' @ t @ ''>''), w2)"
    by (simp add: js_bind_Return Present_template_Return)
  then have "js_catch (js_bind (JSON_stringify H (value this)) (Present_template H))
      (Present_template H (value this)) w = (Return (''Optional.Present<'' @ t @ ''>''), w2)"
    by (simp add: js_catch_def)
  with assms(1,2) show ?thesis
    by (simp add: toString_def Let_def)
qed

lemma toString_fallback:
  assumes "isPresent this"
    and "typeof (value this) = ''object'' \<or> typeof (value this) = ''string''"
    and "JSON_stringify H (value this) w = (Throw x, w1)"
    and "ToString H (value this) w1 = (Return t, w2)"
  shows "toString H this w = (Return (''Optional.Present<'' @ t @ ''>''), w2)"
proof -
  from assms(3)
  have "js_bind (JSON_stringify H (value this)) (Present_template H) w = (Throw x, w1)"
    by (rule js_bind_Throw)
  then have "js_catch (js_bind (JSON_stringify H (value this)) (Present_template H))
      (Present_template H (value this)) w = Present_template H (value this) w1"
    by (simp add: js_catch_def)
  with assms(1,2,4) show ?thesis
    by (simp add: toString_def Let_def Present_template_Return)
qed

lemma toString_plain:
  assumes "isPresent this"
    and "typeof (value this) \<noteq> ''object''" and "typeof (value this) \<noteq> ''string''"
    and "ToString H (value this) w = (Return t, w')"
  shows "toString H this w = (Return (''Optional.Present<'' @ t @ ''>''), w')"
  using assms by (simp add: toString_def Let_def Present_template_Return)

text \<open>
  C3, as the code has it. \<^verbatim>\<open>toString\<close> of an Empty container is the literal
  \<^verbatim>\<open>"Optional.Empty"\<close>. For a Present container holding \<open>v\<close> it is
  \<^verbatim>\<open>"Optional.Present<"\<close>, a rendering of \<open>v\<close>, and \<^verbatim>\<open>">"\<close>, whenever the rendering
  yields a text \<open>t\<close>. When \<open>v\<close> is an object or a string the rendering is the text of
  \<^verbatim>\<open>JSON.stringify(v)\<close>, and when \<^verbatim>\<open>JSON.stringify\<close> throws it is the plain textual
  rendering of \<open>v\<close>, taken in the world the failed call left. For every other kind of
  value it is the plain textual rendering of \<open>v\<close>.
\<close>

theorem toString_rendering:
  "(isEmpty this \<longrightarrow> toString H this w = (Return ''Optional.Empty'', w))
   \<and> (isPresent this \<and> (typeof (get this) = ''object'' \<or> typeof (get this) = ''string'')
        \<and> JSON_stringify H (get this) w = (Return j, w1) \<and> ToString H j w1 = (Return t, w2) \<longrightarrow>
        toString H this w = (Return (''Optional.Present<'' @ t @ ''>''), w2))
   \<and> (isPresent this \<and> (typeof (get this) = ''object'' \<or> typeof (get this) = ''string'')
        \<and> JSON_stringify H (get this) w = (Throw x, w1)
        \<and> ToString H (get this) w1 = (Return t, w2) \<longrightarrow>
        toString H this w = (Return (''Optional.Present<'' @ t @ ''>''), w2))
   \<and> (isPresent this \<and> typeof (get this) \<noteq> ''object'' \<and> typeof (get this) \<noteq> ''string''
        \<and> ToString H (get this) w = (Return t, w2) \<longrightarrow>
        toString H this w = (Return (''Optional.Present<'' @ t @ ''>''), w2))"
proof (intro conjI impI)
  assume "isEmpty this"
  then show "toString H this w = (Return ''Optional.Empty'', w)"
    by (simp add: toString_def isEmpty_iff_not_isPresent js_return_def)
next
  assume "isPresent this \<and> (typeof (get this) = ''object'' \<or> typeof (get this) = ''string'')
      \<and> JSON_stringify H (get this) w = (Return j, w1) \<and> ToString H j w1 = (Return t, w2)"
  then show "toString H this w = (Return (''Optional.Present<'' @ t @ ''>''), w2)"
    unfolding get_def by (elim conjE) (rule toString_serialized)
next
  assume "isPresent this \<and> (typeof (get this) = ''object'' \<or> typeof (get this) = ''string'')
      \<and> JSON_stringify H (get this) w = (Throw x, w1)
      \<and> ToString H (get this) w1 = (Return t, w2)"
  then show "toString H this w = (Return (''Optional.Present<'' @ t @ ''>''), w2)"
    unfolding get_def by (elim conjE) (rule toString_fallback)
next
  assume "isPresent this \<and> typeof (get this) \<noteq> ''object'' \<and> typeof (get this) \<noteq> ''string''
      \<and> ToString H (get this) w = (Return t, w2)"
  then show "toString H this w = (Return (''Optional.Present<'' @ t @ ''>''), w2)"
    unfolding get_def by (elim conjE) (rule toString_plain)
qed

theorem toString_rendering_witness:
  "toString sample_host Optional_empty world0 = (Return ''Optional.Empty'', world0)
   \<and> toString sample_host (Optional (JNumber (Finite 123))) world0
     = (Return ''Optional.Present<123>'', world0)
   \<and> toString sample_host (Optional (JString ''123'')) world0
     = (Return (''Optional.Present<'' @ [CHR 0x22] @ ''123'' @ [CHR 0x22] @ ''>''), world0)
   \<and> fst (toString sample_host (Optional (JObject 0)) world0)
     = Return ''Optional.Present<[object Object]>''"
proof -
  let ?n = "Optional (JNumber (Finite 123))" and ?s = "Optional (JString ''123'')"
  let ?o = "Optional (JObject 0)"
  let ?q = "JString ([CHR 0x22] @ ''123'' @ [CHR 0x22])"
  let ?w = "snd (alloc (ErrorObject ''TypeError'' ''Converting circular structure to JSON'') world0)"
  have e: "isEmpty Optional_empty"
    by (simp add: Optional_empty_def isEmpty_OptionalValue_empty)
  have p: "isPresent ?n" "isPresent ?s" "isPresent ?o"
    and g: "get ?n = JNumber (Finite 123)" "get ?s = JString ''123''" "get ?o = JObject 0"
    by (simp_all add: Optional_def isPresent_iff get_def value_OptionalValue_of)
  have n: "ToString sample_host (JNumber (Finite 123)) world0 = (Return ''123'', world0)"
    by (simp add: sample_host_def js_return_def decimal_int_def decimal_nat.simps)
  have s1: "JSON_stringify sample_host (JString ''123'') world0 = (Return ?q, world0)"
    by (simp add: sample_host_def js_return_def QuoteJSONString_def json_escape_def)
  have s2: "ToString sample_host ?q world0 = (Return ([CHR 0x22] @ ''123'' @ [CHR 0x22]), world0)"
    by (simp add: sample_host_def js_return_def)
  have o1: "JSON_stringify sample_host (JObject 0) world0 = (Throw (JObject 0), ?w)"
    by (simp add: sample_host_def throw_TypeError_def js_bind_def js_throw_def alloc_def
        world0_def)
  have o2: "ToString sample_host (JObject 0) ?w = (Return ''[object Object]'', ?w)"
    by (simp add: sample_host_def js_return_def)
  have 1: "toString sample_host Optional_empty world0 = (Return ''Optional.Empty'', world0)"
    using e toString_rendering [of Optional_empty sample_host world0] by blast
  have "toString sample_host ?n world0 = (Return (''Optional.Present<'' @ ''123'' @ ''>''), world0)"
    using p g n toString_rendering [of ?n sample_host world0 _ _ "''123''" world0]
    by simp
  then have 2: "toString sample_host ?n world0 = (Return ''Optional.Present<123>'', world0)"
    by simp
  have 3: "toString sample_host ?s world0
      = (Return (''Optional.Present<'' @ [CHR 0x22] @ ''123'' @ [CHR 0x22] @ ''>''), world0)"
    using p g s1 s2
      toString_rendering [of ?s sample_host world0 ?q world0 "[CHR 0x22] @ ''123'' @ [CHR 0x22]"
        world0]
    by simp
  have "toString sample_host ?o world0
      = (Return (''Optional.Present<'' @ ''[object Object]'' @ ''>''), ?w)"
    using p g o1 o2
      toString_rendering [of ?o sample_host world0 _ ?w "''[object Object]''" ?w "JObject 0"]
    by simp
  then have 4: "fst (toString sample_host ?o world0) = Return ''Optional.Present<[object Object]>''"
    by simp
  from 1 2 3 4 show ?thesis by (intro conjI)
qed

text \<open>
  The claim as the specification states it fails in two places. It names other
  literals: the code answers \<^verbatim>\<open>"Optional.Empty"\<close> and \<^verbatim>\<open>"Optional.Present<123>"\<close>,
  not \<^verbatim>\<open>"Container.Empty"\<close> and \<^verbatim>\<open>"Container.Present<123>"\<close>. And not every Present
  container has a rendering: for a container that holds a symbol the template literal
  throws a \<^verbatim>\<open>TypeError\<close>, and so does \<^verbatim>\<open>toString\<close>.
\<close>

theorem toString_counterexample:
  "fst (toString sample_host Optional_empty world0) = Return ''Optional.Empty''
   \<and> fst (toString sample_host Optional_empty world0) \<noteq> Return ''Container.Empty''
   \<and> fst (toString sample_host (Optional (JNumber (Finite 123))) world0)
       \<noteq> Return ''Container.Present<123>''
   \<and> isPresent (Optional (JSymbol 0))
   \<and> fst (toString sample_host (Optional (JSymbol 0)) world0) = Throw (JObject 0)
   \<and> thrown_error (toString sample_host (Optional (JSymbol 0)) world0)
       = Some (''TypeError'', ''Cannot convert a Symbol value to a string'')"
proof -
  have lit: "fst (toString sample_host Optional_empty world0) = Return ''Optional.Empty''"
    "fst (toString sample_host Optional_empty world0) \<noteq> Return ''Container.Empty''"
    "fst (toString sample_host (Optional (JNumber (Finite 123))) world0)
       \<noteq> Return ''Container.Present<123>''"
    by (simp_all add: toString_def Optional_empty_def OptionalValue_empty_def Optional_def
        OptionalValue_of_def OptionalValue_isPresent_iff isPresent_iff Present_template_def
        sample_host_def js_bind_def js_return_def decimal_int_def decimal_nat.simps)
  have p: "isPresent (Optional (JSymbol 0))"
    by (simp add: Optional_def isPresent_iff value_OptionalValue_of)
  have t: "toString sample_host (Optional (JSymbol 0)) world0
      = (Throw (JObject 0),
         snd (alloc (ErrorObject ''TypeError'' ''Cannot convert a Symbol value to a string'')
                world0))"
    by (simp add: toString_def isPresent_iff Optional_def value_OptionalValue_of
        Present_template_def
        sample_host_def throw_TypeError_def js_bind_def js_throw_def alloc_def world0_def)
  have th: "thrown_error (toString sample_host (Optional (JSymbol 0)) world0)
      = Some (''TypeError'', ''Cannot convert a Symbol value to a string'')"
    by (simp only: t) (simp add: thrown_error_def error_at_def alloc_def world0_def)
  from t have f: "fst (toString sample_host (Optional (JSymbol 0)) world0) = Throw (JObject 0)"
    by simp
  from lit p f th show ?thesis by (intro conjI)
qed

end
